theory Spec2Isabelle
  imports Complex_Main "HOL-Library.Word"
begin

unbundle bit_operations_syntax

section \<open>Data model of \<open>deye_sensor.py\<close>\<close>

text \<open>
  Python values as they appear in the module:
  \<^item> a register snapshot \<open>dict[int, bytearray]\<close> is a map from addresses to byte lists;
  \<^item> a sensor value is a Python number. Integers and floats are both embedded in the
    rationals, with exact arithmetic: the rounding of IEEE doubles is outside the model;
  \<^item> \<open>None\<close> is \<open>None\<close> of the option type;
  \<^item> every \<open>raise\<close>, failed \<open>assert\<close> and failing built-in is a value of \<open>error\<close>,
    returned as \<open>Inl\<close>.
\<close>

type_synonym byte = "8 word"
type_synonym registers = "int \<rightharpoonup> byte list"

datatype error =
    AssertionError
  | TypeError
  | RuntimeError
  | IndexError
  | ZeroDivisionError
  | OverflowError

text \<open>
  \<open>datetime\<close>: the attributes of a Python \<open>datetime\<close> object. The attribute \<open>day\<close> is
  the day of the month (1 to 31).
\<close>

record datetime =
  year :: int
  month :: int
  day :: int
  hour :: int
  minute :: int
  second :: int

text \<open>The attributes set by \<open>NamedSensor.__init__\<close>.\<close>

record NamedSensor =
  name :: string
  mqtt_topic_suffix :: string
  unit :: string
  print_format :: string
  groups :: "string list"

text \<open>
  The attributes added by \<open>SingleRegisterSensor.__init__\<close>. In the source the attribute
  is called \<open>signed\<close>.
\<close>

record RegisterSensor = NamedSensor +
  reg_address :: int
  factor :: rat
  offset :: rat
  signed_flag :: bool

text \<open>
  \<open>DoubleRegisterSensor.__init__\<close> sets the same attributes as
  \<open>SingleRegisterSensor.__init__\<close> and \<open>low_word_first\<close>.
\<close>

record DoubleRegisterSensor = RegisterSensor +
  low_word_first :: bool

text \<open>
  The subclasses of \<open>Sensor\<close> that keep no state between reads. Calling a method of
  a \<open>Sensor\<close> dispatches on the constructor.
\<close>

datatype Sensor =
    SingleRegisterSensor RegisterSensor
  | DoubleRegisterSensor DoubleRegisterSensor
  | SignedMagnitudeSingleRegisterSensor RegisterSensor
  | SignedMagnitudeDoubleRegisterSensor DoubleRegisterSensor
  | ComputedPowerSensor NamedSensor Sensor Sensor
  | ComputedSumSensor NamedSensor "Sensor list"
  | AggregatedValueSensor NamedSensor

section \<open>Bytes and integers\<close>

text \<open>\<open>int.from_bytes(bs, "big", signed=False)\<close>.\<close>

definition from_bytes_unsigned :: "byte list \<Rightarrow> int" where
  "from_bytes_unsigned bs = foldl (\<lambda>acc b. acc * 256 + uint b) 0 bs"

text \<open>\<open>int.from_bytes(bs, "big", signed=signed)\<close>: two's complement when signed.\<close>

definition int_from_bytes :: "byte list \<Rightarrow> bool \<Rightarrow> int" where
  "int_from_bytes bs signed_arg =
     (let u = from_bytes_unsigned bs; n = 8 * length bs
      in if signed_arg \<and> bs \<noteq> [] \<and> 2 ^ (n - 1) \<le> u then u - 2 ^ n else u)"

text \<open>
  \<open>v.to_bytes(2, "big", signed=signed)\<close>: raises \<open>OverflowError\<close> when \<open>v\<close> does not
  fit in 16 bits of the chosen signedness.
\<close>

definition int_to_bytes2 :: "int \<Rightarrow> bool \<Rightarrow> error + byte list" where
  "int_to_bytes2 v signed_arg =
     (if (if signed_arg then - 32768 \<le> v \<and> v < 32768 else 0 \<le> v \<and> v < 65536)
      then Inr [word_of_int ((v mod 65536) div 256), word_of_int ((v mod 65536) mod 256)]
      else Inl OverflowError)"

text \<open>\<open>int(x)\<close> on a float: truncation towards zero.\<close>

definition py_int :: "rat \<Rightarrow> int" where
  "py_int x = (if 0 \<le> x then \<lfloor>x\<rfloor> else \<lceil>x\<rceil>)"

section \<open>Reading sensors\<close>

text \<open>The loop of \<open>ComputedSumSensor.read_value\<close> over \<open>sensor_values\<close>.\<close>

fun sum_loop :: "rat \<Rightarrow> rat option list \<Rightarrow> rat option" where
  "sum_loop result [] = Some result"
| "sum_loop result (None # sensor_values) = None"
| "sum_loop result (Some v # sensor_values) = sum_loop (result + v) sensor_values"

text \<open>
  \<open>read_value\<close> of each stateless class, one equation per class. \<open>read_values\<close> is the
  list comprehension \<open>[s.read_value(registers) for s in self.sensors]\<close>: the first
  operand that raises ends it.
\<close>

fun read_value :: "Sensor \<Rightarrow> registers \<Rightarrow> error + rat option"
  and read_values :: "Sensor list \<Rightarrow> registers \<Rightarrow> error + rat option list"
where
  "read_value (SingleRegisterSensor s) registers =
     (case registers (reg_address s) of
        Some reg_value \<Rightarrow>
          Inr (Some (of_int (int_from_bytes reg_value (signed_flag s)) * factor s + offset s))
      | None \<Rightarrow> Inr None)"
| "read_value (DoubleRegisterSensor s) registers =
     (let low_word_reg_address = reg_address s + (if low_word_first s then 0 else 1);
          high_word_reg_address = reg_address s + (if low_word_first s then 1 else 0)
      in case registers low_word_reg_address of
           None \<Rightarrow> Inr None
         | Some low_word \<Rightarrow>
             (case registers high_word_reg_address of
                None \<Rightarrow> Inr None
              | Some high_word \<Rightarrow>
                  Inr (Some (of_int (int_from_bytes (high_word @ low_word) (signed_flag s))
                             * factor s + offset s))))"
| "read_value (SignedMagnitudeSingleRegisterSensor s) registers =
     (case registers (reg_address s) of
        None \<Rightarrow> Inr None
      | Some bs \<Rightarrow>
          (let reg_value = int_from_bytes bs False AND 0x7FFF
           in case bs of
                [] \<Rightarrow> Inl IndexError
              | b0 # _ \<Rightarrow>
                  if b0 AND 0x80 \<noteq> 0
                  then Inr (Some (of_int (- 1 * reg_value) * factor s + offset s))
                  else Inr (Some (of_int reg_value * factor s + offset s))))"
| "read_value (SignedMagnitudeDoubleRegisterSensor s) registers =
     (let high_word_reg_address = reg_address s;
          low_word_reg_address = reg_address s + 1
      in case registers low_word_reg_address of
           None \<Rightarrow> Inr None
         | Some low_word \<Rightarrow>
             (case registers high_word_reg_address of
                None \<Rightarrow> Inr None
              | Some high_word \<Rightarrow>
                  (let reg_value = int_from_bytes (high_word @ low_word) False AND 0x7FFFFFFF
                   in case high_word of
                        [] \<Rightarrow> Inl IndexError
                      | b0 # _ \<Rightarrow>
                          if b0 AND 0x80 \<noteq> 0
                          then Inr (Some (of_int (- 1 * reg_value) * factor s + offset s))
                          else Inr (Some (of_int reg_value * factor s + offset s)))))"
| "read_value (ComputedPowerSensor n voltage_sensor current_sensor) registers =
     (case read_value voltage_sensor registers of
        Inl e \<Rightarrow> Inl e
      | Inr voltage \<Rightarrow>
          (case read_value current_sensor registers of
             Inl e \<Rightarrow> Inl e
           | Inr current \<Rightarrow>
               (case voltage of
                  None \<Rightarrow> Inr None
                | Some v \<Rightarrow>
                    (case current of None \<Rightarrow> Inr None | Some c \<Rightarrow> Inr (Some (v * c))))))"
| "read_value (ComputedSumSensor n sensors) registers =
     (case read_values sensors registers of
        Inl e \<Rightarrow> Inl e
      | Inr sensor_values \<Rightarrow> Inr (sum_loop 0 sensor_values))"
| "read_value (AggregatedValueSensor n) registers = Inl RuntimeError"
| "read_values [] registers = Inr []"
| "read_values (s # ss) registers =
     (case read_value s registers of
        Inl e \<Rightarrow> Inl e
      | Inr v \<Rightarrow>
          (case read_values ss registers of
             Inl e \<Rightarrow> Inl e
           | Inr vs \<Rightarrow> Inr (v # vs)))"

section \<open>Writing sensors\<close>

text \<open>
  \<open>write_value\<close>. The source takes a string and converts it with \<open>float(value)\<close>; the
  model takes the number. \<open>SingleRegisterSensor\<close> overrides the method of \<open>Sensor\<close>,
  \<open>SignedMagnitudeSingleRegisterSensor\<close> inherits that override, \<open>AggregatedValueSensor\<close>
  raises, and every other class inherits \<open>Sensor.write_value\<close>, which returns the empty
  dictionary. A float division by zero raises \<open>ZeroDivisionError\<close>.
\<close>

definition SingleRegisterSensor_write_value ::
  "RegisterSensor \<Rightarrow> rat \<Rightarrow> error + registers" where
  "SingleRegisterSensor_write_value s val =
     (if factor s = 0 then Inl ZeroDivisionError
      else
        (let v = py_int ((val - offset s) / factor s)
         in case int_to_bytes2 v (signed_flag s) of
              Inl e \<Rightarrow> Inl e
            | Inr bs \<Rightarrow> Inr [reg_address s \<mapsto> bs]))"

fun write_value :: "Sensor \<Rightarrow> rat \<Rightarrow> error + registers" where
  "write_value (SingleRegisterSensor s) val = SingleRegisterSensor_write_value s val"
| "write_value (SignedMagnitudeSingleRegisterSensor s) val =
     SingleRegisterSensor_write_value s val"
| "write_value (AggregatedValueSensor n) val = Inl RuntimeError"
| "write_value (DoubleRegisterSensor s) val = Inr Map.empty"
| "write_value (SignedMagnitudeDoubleRegisterSensor s) val = Inr Map.empty"
| "write_value (ComputedPowerSensor n a b) val = Inr Map.empty"
| "write_value (ComputedSumSensor n ss) val = Inr Map.empty"

text \<open>
  \<open>write_value(read_value(registers))\<close>: \<open>float(None)\<close> raises \<open>TypeError\<close>.
\<close>

definition write_read :: "Sensor \<Rightarrow> registers \<Rightarrow> error + registers" where
  "write_read s registers =
     (case read_value s registers of
        Inl e \<Rightarrow> Inl e
      | Inr None \<Rightarrow> Inl TypeError
      | Inr (Some val) \<Rightarrow> write_value s val)"

section \<open>Groups and construction\<close>

text \<open>The attribute \<open>groups\<close> of a sensor.\<close>

fun groups_of :: "Sensor \<Rightarrow> string list" where
  "groups_of (SingleRegisterSensor s) = groups s"
| "groups_of (DoubleRegisterSensor s) = groups s"
| "groups_of (SignedMagnitudeSingleRegisterSensor s) = groups s"
| "groups_of (SignedMagnitudeDoubleRegisterSensor s) = groups s"
| "groups_of (ComputedPowerSensor n a b) = groups n"
| "groups_of (ComputedSumSensor n ss) = groups n"
| "groups_of (AggregatedValueSensor n) = groups n"

text \<open>
  \<open>Sensor.in_any_group\<close>:
  \<^verbatim>\<open>return not self.groups or len(active_groups.intersection(self.groups)) > 0\<close>
\<close>

definition in_any_group :: "Sensor \<Rightarrow> string set \<Rightarrow> bool" where
  "in_any_group s active_groups =
     (groups_of s = [] \<or> 0 < card (active_groups \<inter> set (groups_of s)))"

text \<open>
  \<open>NamedSensor.__init__\<close>: the \<open>assert len(groups) > 0\<close> comes before \<open>groups\<close> is
  stored.
\<close>

definition NamedSensor_init ::
  "string \<Rightarrow> string \<Rightarrow> string \<Rightarrow> string \<Rightarrow> string list \<Rightarrow> error + NamedSensor" where
  "NamedSensor_init nm suffix un fmt grps =
     (if 0 < length grps
      then Inr \<lparr>name = nm, mqtt_topic_suffix = suffix, unit = un, print_format = fmt,
                groups = grps\<rparr>
      else Inl AssertionError)"

text \<open>
  The constructors of the subclasses call \<open>super().__init__\<close> first and then store their
  own attributes.
\<close>

definition RegisterSensor_init ::
  "string \<Rightarrow> int \<Rightarrow> rat \<Rightarrow> rat \<Rightarrow> bool \<Rightarrow> string \<Rightarrow> string \<Rightarrow> string \<Rightarrow> string list
     \<Rightarrow> error + RegisterSensor" where
  "RegisterSensor_init nm addr fac off sg suffix un fmt grps =
     (case NamedSensor_init nm suffix un fmt grps of
        Inl e \<Rightarrow> Inl e
      | Inr n \<Rightarrow>
          Inr \<lparr>name = name n, mqtt_topic_suffix = mqtt_topic_suffix n, unit = unit n,
                print_format = print_format n, groups = groups n,
                reg_address = addr, factor = fac, offset = off, signed_flag = sg\<rparr>)"

definition DoubleRegisterSensor_fields_init ::
  "string \<Rightarrow> int \<Rightarrow> rat \<Rightarrow> rat \<Rightarrow> bool \<Rightarrow> string \<Rightarrow> string \<Rightarrow> string \<Rightarrow> string list \<Rightarrow> bool
     \<Rightarrow> error + DoubleRegisterSensor" where
  "DoubleRegisterSensor_fields_init nm addr fac off sg suffix un fmt grps lwf =
     (case NamedSensor_init nm suffix un fmt grps of
        Inl e \<Rightarrow> Inl e
      | Inr n \<Rightarrow>
          Inr \<lparr>name = name n, mqtt_topic_suffix = mqtt_topic_suffix n, unit = unit n,
                print_format = print_format n, groups = groups n,
                reg_address = addr, factor = fac, offset = off, signed_flag = sg,
                low_word_first = lwf\<rparr>)"

definition SingleRegisterSensor_init ::
  "string \<Rightarrow> int \<Rightarrow> rat \<Rightarrow> rat \<Rightarrow> bool \<Rightarrow> string \<Rightarrow> string \<Rightarrow> string \<Rightarrow> string list
     \<Rightarrow> error + Sensor" where
  "SingleRegisterSensor_init nm addr fac off sg suffix un fmt grps =
     map_sum id SingleRegisterSensor (RegisterSensor_init nm addr fac off sg suffix un fmt grps)"

definition SignedMagnitudeSingleRegisterSensor_init ::
  "string \<Rightarrow> int \<Rightarrow> rat \<Rightarrow> rat \<Rightarrow> bool \<Rightarrow> string \<Rightarrow> string \<Rightarrow> string \<Rightarrow> string list
     \<Rightarrow> error + Sensor" where
  "SignedMagnitudeSingleRegisterSensor_init nm addr fac off sg suffix un fmt grps =
     map_sum id SignedMagnitudeSingleRegisterSensor
       (RegisterSensor_init nm addr fac off sg suffix un fmt grps)"

definition DoubleRegisterSensor_init ::
  "string \<Rightarrow> int \<Rightarrow> rat \<Rightarrow> rat \<Rightarrow> bool \<Rightarrow> string \<Rightarrow> string \<Rightarrow> string \<Rightarrow> string list \<Rightarrow> bool
     \<Rightarrow> error + Sensor" where
  "DoubleRegisterSensor_init nm addr fac off sg suffix un fmt grps lwf =
     map_sum id DoubleRegisterSensor
       (DoubleRegisterSensor_fields_init nm addr fac off sg suffix un fmt grps lwf)"

definition SignedMagnitudeDoubleRegisterSensor_init ::
  "string \<Rightarrow> int \<Rightarrow> rat \<Rightarrow> rat \<Rightarrow> bool \<Rightarrow> string \<Rightarrow> string \<Rightarrow> string \<Rightarrow> string list \<Rightarrow> bool
     \<Rightarrow> error + Sensor" where
  "SignedMagnitudeDoubleRegisterSensor_init nm addr fac off sg suffix un fmt grps lwf =
     map_sum id SignedMagnitudeDoubleRegisterSensor
       (DoubleRegisterSensor_fields_init nm addr fac off sg suffix un fmt grps lwf)"

definition ComputedPowerSensor_init ::
  "string \<Rightarrow> Sensor \<Rightarrow> Sensor \<Rightarrow> string \<Rightarrow> string \<Rightarrow> string \<Rightarrow> string list \<Rightarrow> error + Sensor" where
  "ComputedPowerSensor_init nm voltage_sensor current_sensor suffix un fmt grps =
     map_sum id (\<lambda>n. ComputedPowerSensor n voltage_sensor current_sensor)
       (NamedSensor_init nm suffix un fmt grps)"

definition ComputedSumSensor_init ::
  "string \<Rightarrow> Sensor list \<Rightarrow> string \<Rightarrow> string \<Rightarrow> string \<Rightarrow> string list \<Rightarrow> error + Sensor" where
  "ComputedSumSensor_init nm sensors suffix un fmt grps =
     map_sum id (\<lambda>n. ComputedSumSensor n sensors) (NamedSensor_init nm suffix un fmt grps)"

definition AggregatedValueSensor_init ::
  "string \<Rightarrow> string \<Rightarrow> string \<Rightarrow> string \<Rightarrow> string list \<Rightarrow> error + Sensor" where
  "AggregatedValueSensor_init nm suffix un fmt grps =
     map_sum id AggregatedValueSensor (NamedSensor_init nm suffix un fmt grps)"

section \<open>DailyResetSensor\<close>

text \<open>
  The wrapper keeps \<open>__last_value\<close> and \<open>__last_value_ts\<close> between reads: the state is
  passed in and returned. \<open>datetime.now()\<close> is an input of the model, called \<open>now\<close>.
  The delegate is one of the stateless sensors: \<open>reset_daily\<close>, the method that creates
  the wrapper, exists on the register sensors only.
\<close>

record DailyResetSensor =
  delegate :: Sensor
  last_value :: "rat option"
  last_value_ts :: datetime

definition DailyResetSensor_init :: "Sensor \<Rightarrow> datetime \<Rightarrow> DailyResetSensor" where
  "DailyResetSensor_init d now = \<lparr>delegate = d, last_value = Some 0, last_value_ts = now\<rparr>"

text \<open>
  \<open>value >= self.__last_value\<close>: comparing a number with \<open>None\<close> raises \<open>TypeError\<close>.
\<close>

definition py_ge :: "rat \<Rightarrow> rat option \<Rightarrow> error + bool" where
  "py_ge v other = (case other of None \<Rightarrow> Inl TypeError | Some l \<Rightarrow> Inr (l \<le> v))"

text \<open>
  \<open>DailyResetSensor.read_value\<close>:
  \<^verbatim>\<open>
    now = datetime.now()
    value = self.__delegate.read_value(registers)
    if value is not None and now.day != self.__last_value_ts.day and value >= self.__last_value:
        return 0
    self.__last_value = value
    self.__last_value_ts = now
    return value
  \<close>
  The conjunction is evaluated left to right and stops at the first false operand. An
  exception leaves the state as it was, since nothing has been assigned before it.
\<close>

definition DailyResetSensor_read_value ::
  "DailyResetSensor \<Rightarrow> datetime \<Rightarrow> registers \<Rightarrow> error + (rat option \<times> DailyResetSensor)" where
  "DailyResetSensor_read_value self now registers =
     (case read_value (delegate self) registers of
        Inl e \<Rightarrow> Inl e
      | Inr val \<Rightarrow>
          (let store = (val, self\<lparr>last_value := val, last_value_ts := now\<rparr>)
           in case val of
                None \<Rightarrow> Inr store
              | Some v \<Rightarrow>
                  if day now \<noteq> day (last_value_ts self)
                  then (case py_ge v (last_value self) of
                          Inl e \<Rightarrow> Inl e
                        | Inr ge \<Rightarrow> if ge then Inr (Some 0, self) else Inr store)
                  else Inr store))"

text \<open>\<open>DailyResetSensor.in_any_group\<close> asks the delegate.\<close>

definition DailyResetSensor_in_any_group :: "DailyResetSensor \<Rightarrow> string set \<Rightarrow> bool" where
  "DailyResetSensor_in_any_group self active_groups = in_any_group (delegate self) active_groups"

section \<open>Register ranges\<close>

text \<open>
  \<open>SensorRegisterRange\<close>. In the source the attribute is called \<open>group\<close>; the constructor
  takes one group name or a set of names.
\<close>

record SensorRegisterRange =
  group_set :: "string set"
  first_reg_address :: int
  last_reg_address :: int

definition SensorRegisterRange_init ::
  "string + string set \<Rightarrow> int \<Rightarrow> int \<Rightarrow> SensorRegisterRange" where
  "SensorRegisterRange_init g first_reg last_reg =
     \<lparr>group_set = (case g of Inl s \<Rightarrow> {s} | Inr gs \<Rightarrow> gs),
      first_reg_address = first_reg, last_reg_address = last_reg\<rparr>"

text \<open>
  \<open>SensorRegisterRange.in_any_group\<close>:
  \<^verbatim>\<open>return len(self.group.intersection(active_groups)) > 0\<close>
\<close>

definition range_in_any_group :: "SensorRegisterRange \<Rightarrow> string set \<Rightarrow> bool" where
  "range_in_any_group r active_groups = (0 < card (group_set r \<inter> active_groups))"

definition is_same_range :: "SensorRegisterRange \<Rightarrow> SensorRegisterRange \<Rightarrow> bool" where
  "is_same_range r other =
     (first_reg_address r = first_reg_address other \<and> last_reg_address r = last_reg_address other)"

definition range_length :: "SensorRegisterRange \<Rightarrow> int" where
  "range_length r = last_reg_address r - first_reg_address r + 1"

text \<open>
  \<open>math.ceil(a / b)\<close> on integers, as the exact ceiling of the quotient; \<open>a / 0\<close> raises.
\<close>

definition ceil_div :: "int \<Rightarrow> int \<Rightarrow> error + int" where
  "ceil_div a b = (if b = 0 then Inl ZeroDivisionError else Inr (- ((- a) div b)))"

text \<open>
  \<open>SensorRegisterRange.split\<close>: the loop over \<open>range(0, sub_ranges_count)\<close> appends one
  sub-range per index.
\<close>

definition sub_range :: "SensorRegisterRange \<Rightarrow> int \<Rightarrow> int \<Rightarrow> SensorRegisterRange" where
  "sub_range r sub_range_len i =
     (let sub_range_first_reg = first_reg_address r + i * sub_range_len;
          sub_range_last_reg = min (sub_range_first_reg + sub_range_len - 1) (last_reg_address r)
      in \<lparr>group_set = group_set r, first_reg_address = sub_range_first_reg,
           last_reg_address = sub_range_last_reg\<rparr>)"

definition split_range :: "SensorRegisterRange \<Rightarrow> int \<Rightarrow> error + SensorRegisterRange list" where
  "split_range r sub_range_len =
     (case ceil_div (range_length r) sub_range_len of
        Inl e \<Rightarrow> Inl e
      | Inr sub_ranges_count \<Rightarrow> Inr (map (sub_range r sub_range_len) [0 .. sub_ranges_count - 1]))"

text \<open>The three static methods of \<open>SensorRegisterRanges\<close> and its constructor.\<close>

definition filter_reg_ranges ::
  "SensorRegisterRange list \<Rightarrow> string list \<Rightarrow> SensorRegisterRange list" where
  "filter_reg_ranges reg_ranges_to_filter metric_groups =
     filter (\<lambda>r. range_in_any_group r (set metric_groups)) reg_ranges_to_filter"

fun remove_duplicated_loop ::
  "SensorRegisterRange list \<Rightarrow> SensorRegisterRange list \<Rightarrow> SensorRegisterRange list" where
  "remove_duplicated_loop result [] = result"
| "remove_duplicated_loop result (reg_range # rest) =
     remove_duplicated_loop
       (if filter (\<lambda>r. is_same_range r reg_range) result = [] then result @ [reg_range]
        else result)
       rest"

definition remove_duplicated_reg_ranges ::
  "SensorRegisterRange list \<Rightarrow> SensorRegisterRange list" where
  "remove_duplicated_reg_ranges reg_ranges = remove_duplicated_loop [] reg_ranges"

fun split_long_loop ::
  "SensorRegisterRange list \<Rightarrow> SensorRegisterRange list \<Rightarrow> int
     \<Rightarrow> error + SensorRegisterRange list" where
  "split_long_loop result [] max_range_length = Inr result"
| "split_long_loop result (reg_range # rest) max_range_length =
     (if range_length reg_range \<le> max_range_length
      then split_long_loop (result @ [reg_range]) rest max_range_length
      else (case split_range reg_range max_range_length of
              Inl e \<Rightarrow> Inl e
            | Inr subs \<Rightarrow> split_long_loop (result @ subs) rest max_range_length))"

definition split_long_reg_ranges ::
  "SensorRegisterRange list \<Rightarrow> int \<Rightarrow> error + SensorRegisterRange list" where
  "split_long_reg_ranges reg_ranges max_range_length =
     split_long_loop [] reg_ranges max_range_length"

definition SensorRegisterRanges_init ::
  "SensorRegisterRange list \<Rightarrow> string list \<Rightarrow> int \<Rightarrow> error + SensorRegisterRange list" where
  "SensorRegisterRanges_init ranges metric_groups max_range_length =
     (let filtered_ranges = filter_reg_ranges ranges metric_groups;
          unique_ranges = remove_duplicated_reg_ranges filtered_ranges
      in split_long_reg_ranges unique_ranges max_range_length)"

section \<open>Register contents and example values\<close>

text \<open>
  A register holds a 16-bit word as two bytes, most significant byte first.
\<close>

definition word16_bytes :: "16 word \<Rightarrow> byte list" where
  "word16_bytes w = [ucast (drop_bit 8 w), ucast w]"

text \<open>The 32-bit word \<open>hi << 16 | lo\<close> made of two register words.\<close>

definition word32_of_words :: "16 word \<Rightarrow> 16 word \<Rightarrow> 32 word" where
  "word32_of_words hi lo = push_bit 16 (ucast hi) OR ucast lo"

text \<open>The addresses a range covers, in ascending order.\<close>

definition range_addresses :: "SensorRegisterRange \<Rightarrow> int list" where
  "range_addresses r = [first_reg_address r .. last_reg_address r]"

text \<open>\<open>d.date()\<close>: the calendar day of a timestamp.\<close>

definition calendar_date :: "datetime \<Rightarrow> int \<times> int \<times> int" where
  "calendar_date d = (year d, month d, day d)"

text \<open>Noon of a given day, for the examples.\<close>

definition at_noon :: "int \<Rightarrow> int \<Rightarrow> int \<Rightarrow> datetime" where
  "at_noon y m d = \<lparr>year = y, month = m, day = d, hour = 12, minute = 0, second = 0\<rparr>"

text \<open>
  A daily energy counter in register 60, read with a given factor, and a wrapper around
  the one with factor 1 in a given state.
\<close>

definition energy_sensor_fields :: "rat \<Rightarrow> bool \<Rightarrow> RegisterSensor" where
  "energy_sensor_fields fac sg =
     \<lparr>name = ''Production today'', mqtt_topic_suffix = ''day_energy'', unit = ''kWh'',
      print_format = ''{:0.1f}'', groups = [''micro''],
      reg_address = 60, factor = fac, offset = 0, signed_flag = sg\<rparr>"

definition energy_sensor :: Sensor where
  "energy_sensor = SingleRegisterSensor (energy_sensor_fields 1 False)"

definition daily :: "rat option \<Rightarrow> datetime \<Rightarrow> DailyResetSensor" where
  "daily l ts = \<lparr>delegate = energy_sensor, last_value = l, last_value_ts = ts\<rparr>"

text \<open>A snapshot in which register 60 holds the word \<open>w\<close>.\<close>

definition snapshot60 :: "16 word \<Rightarrow> registers" where
  "snapshot60 w = [60 \<mapsto> word16_bytes w]"

text \<open>The catalog of the register range example of the specification.\<close>

definition example_catalog :: "SensorRegisterRange list" where
  "example_catalog =
     [SensorRegisterRange_init (Inl ''g1'') 10 20,
      SensorRegisterRange_init (Inl ''g1'') 10 20,
      SensorRegisterRange_init (Inl ''g2'') 30 45]"

text \<open>
  The IEEE doubles that Python writes \<open>0.1\<close> and \<open>4.3\<close>, as exact fractions
  (\<open>(0.1).as_integer_ratio()\<close> and \<open>(43 * 0.1).as_integer_ratio()\<close>).
\<close>

definition double_0_1 :: rat where
  "double_0_1 = 3602879701896397 / 36028797018963968"

definition double_4_3 :: rat where
  "double_4_3 = 4841369599423283 / 1125899906842624"

text \<open>
  A total energy counter in registers 63 and 64, and a snapshot in which register 63
  holds \<open>w0\<close> and register 64 holds \<open>w1\<close>.
\<close>

definition total_energy_fields :: "bool \<Rightarrow> bool \<Rightarrow> DoubleRegisterSensor" where
  "total_energy_fields sg lwf =
     \<lparr>name = ''Total production'', mqtt_topic_suffix = ''total_energy'', unit = ''kWh'',
      print_format = ''{:0.1f}'', groups = [''micro''],
      reg_address = 63, factor = 1 / 10, offset = 0, signed_flag = sg,
      low_word_first = lwf\<rparr>"

definition snapshot63 :: "16 word \<Rightarrow> 16 word \<Rightarrow> registers" where
  "snapshot63 w0 w1 = [63 \<mapsto> word16_bytes w0, 64 \<mapsto> word16_bytes w1]"

text \<open>The attributes of a computed sensor, for the examples.\<close>

definition computed_fields :: NamedSensor where
  "computed_fields =
     \<lparr>name = ''Computed'', mqtt_topic_suffix = ''computed'', unit = ''kWh'',
      print_format = ''{:0.1f}'', groups = [''micro'']\<rparr>"

section \<open>Lemmas on bytes and words\<close>

lemma floor_rat_numeral: "\<lfloor>numeral a / numeral b :: rat\<rfloor> = numeral a div numeral b"
  by (metis floor_divide_of_int_eq of_int_numeral)

lemma uint16_bounds: "0 \<le> uint (w :: 16 word)" "uint (w :: 16 word) < 65536"
  using uint_bounded[of w] by simp_all

lemma from_bytes_unsigned_snoc:
  "from_bytes_unsigned (bs @ [b]) = from_bytes_unsigned bs * 256 + uint b"
  by (simp add: from_bytes_unsigned_def)

lemma from_bytes_unsigned_append:
  "from_bytes_unsigned (xs @ ys) =
     from_bytes_unsigned xs * 256 ^ length ys + from_bytes_unsigned ys"
proof (induction ys rule: rev_induct)
  case Nil
  show ?case by (simp add: from_bytes_unsigned_def)
next
  case (snoc y ys)
  have "from_bytes_unsigned (xs @ ys @ [y]) = from_bytes_unsigned ((xs @ ys) @ [y])" by simp
  also have "\<dots> = from_bytes_unsigned (xs @ ys) * 256 + uint y"
    by (rule from_bytes_unsigned_snoc)
  finally show ?case
    by (simp add: snoc.IH from_bytes_unsigned_snoc algebra_simps)
qed

lemma from_bytes_word16: "from_bytes_unsigned (word16_bytes w) = uint w"
proof -
  have hi: "uint (drop_bit 8 w) = uint w div 256"
    unfolding unsigned_drop_bit_eq using uint16_bounds[of w]
    by (simp add: take_bit_int_eq_self drop_bit_eq_div)
  have "uint w div 256 < 256" using uint16_bounds[of w] by simp
  moreover have "0 \<le> uint w div 256" by (simp add: pos_imp_zdiv_nonneg_iff)
  ultimately have "uint w div 256 mod 256 = uint w div 256"
    by (rule mod_pos_pos_trivial[rotated])
  then show ?thesis
    by (simp add: word16_bytes_def from_bytes_unsigned_def unsigned_ucast_eq take_bit_eq_mod hi)
qed

lemma from_bytes_two_words:
  "from_bytes_unsigned (word16_bytes hi @ word16_bytes lo) = uint hi * 65536 + uint lo"
  by (simp add: from_bytes_unsigned_append from_bytes_word16) (simp add: word16_bytes_def)

lemma and_7fff: "(x::int) AND 0x7FFF = take_bit 15 x"
  by (simp add: take_bit_eq_mask mask_eq_exp_minus_1)

lemma sign_byte: "((ucast (drop_bit 8 w) :: 8 word) AND 0x80 \<noteq> 0) = bit (w :: 16 word) 15"
proof -
  have "(ucast (drop_bit 8 w) :: 8 word) AND 2 ^ 7 = 0
          \<longleftrightarrow> \<not> bit (ucast (drop_bit 8 w) :: 8 word) 7"
    by (rule and_exp_eq_0_iff_not_bit)
  then show ?thesis by (simp add: bit_ucast_iff bit_drop_bit_eq)
qed

lemma sint32: "sint (w :: 32 word) = (if 2 ^ 31 \<le> uint w then uint w - 2 ^ 32 else uint w)"
proof -
  have b: "0 \<le> uint w" "uint w < 4294967296" using uint_bounded[of w] by simp_all
  show ?thesis
  proof (cases "2 ^ 31 \<le> uint w")
    case True
    then have "(uint w + 2147483648) mod 4294967296
                 = (uint w + 2147483648 - 4294967296) mod 4294967296"
      by (metis minus_mod_self2)
    also have "\<dots> = uint w + 2147483648 - 4294967296"
      using True b by (intro mod_pos_pos_trivial) simp_all
    finally show ?thesis using True
      by (simp add: sint_uint signed_take_bit_eq_take_bit_shift take_bit_eq_mod)
  next
    case False
    then have "(uint w + 2147483648) mod 4294967296 = uint w + 2147483648"
      using b by (intro mod_pos_pos_trivial) simp_all
    then show ?thesis using False
      by (simp add: sint_uint signed_take_bit_eq_take_bit_shift take_bit_eq_mod)
  qed
qed

lemma uint_word32_of_words: "uint (word32_of_words hi lo) = uint hi * 65536 + uint lo"
proof -
  have "uint (word32_of_words hi lo) = push_bit 16 (uint hi) OR uint lo"
    unfolding word32_of_words_def
    using uint16_bounds[of hi] uint16_bounds[of lo]
    by (simp add: unsigned_or_eq unsigned_push_bit_eq unsigned_ucast_eq take_bit_push_bit
        take_bit_int_eq_self)
  also have "\<dots> = concat_bit 16 (uint lo) (uint hi)"
    using uint16_bounds[of lo] by (simp add: concat_bit_def or.commute take_bit_int_eq_self)
  also have "\<dots> = uint lo + push_bit 16 (uint hi)"
    using uint16_bounds[of lo] by (simp add: concat_bit_eq take_bit_int_eq_self)
  finally show ?thesis by (simp add: push_bit_eq_mult)
qed

lemma int_from_bytes_two_words:
  "int_from_bytes (word16_bytes hi @ word16_bytes lo) sg =
     (if sg then sint (word32_of_words hi lo) else uint (word32_of_words hi lo))"
  by (simp add: int_from_bytes_def from_bytes_two_words sint32 uint_word32_of_words Let_def)
     (simp add: word16_bytes_def)

lemma py_int_numeral: "py_int (numeral a / numeral b) = numeral a div numeral b"
  by (simp add: py_int_def floor_rat_numeral)

lemma py_int_of_int: "py_int (of_int n) = n"
  by (simp add: py_int_def)

lemma int_from_bytes_word16:
  "int_from_bytes (word16_bytes w) sg = (if sg \<and> 32768 \<le> uint w then uint w - 65536 else uint w)"
  by (simp add: int_from_bytes_def from_bytes_word16 Let_def) (simp add: word16_bytes_def)

lemma bytes_of_uint:
  "[word_of_int (uint w div 256), word_of_int (uint w mod 256)] = word16_bytes (w :: 16 word)"
proof -
  have hi: "uint (drop_bit 8 w) = uint w div 256"
    unfolding unsigned_drop_bit_eq using uint16_bounds[of w]
    by (simp add: take_bit_int_eq_self drop_bit_eq_div)
  have "(word_of_int (uint w div 256) :: 8 word) = ucast (drop_bit 8 w)"
    by (rule word_eq_iff_unsigned[where ?'a = int, THEN iffD2])
       (simp add: hi unsigned_ucast_eq uint_word_of_int_eq)
  moreover have "(word_of_int (uint w mod 256) :: 8 word) = ucast w"
    by (rule word_eq_iff_unsigned[where ?'a = int, THEN iffD2])
       (simp add: unsigned_ucast_eq uint_word_of_int_eq take_bit_eq_mod)
  ultimately show ?thesis by (simp add: word16_bytes_def)
qed

lemma int_to_bytes2_from_bytes:
  "int_to_bytes2 (int_from_bytes (word16_bytes w) sg) sg = Inr (word16_bytes w)"
proof -
  have "(uint w - 65536) mod 65536 = uint w mod 65536" by (rule minus_mod_self2)
  also have "\<dots> = uint w" using uint16_bounds[of w] by (intro mod_pos_pos_trivial)
  finally have m: "(uint w - 65536) mod 65536 = uint w" .
  have m': "uint w mod 65536 = uint w" using uint16_bounds[of w] by (intro mod_pos_pos_trivial)
  have lower: "- 32768 \<le> uint w" using uint16_bounds[of w] by linarith
  show ?thesis
    using uint16_bounds[of w] lower
    by (simp add: int_from_bytes_word16 int_to_bytes2_def m m' bytes_of_uint)
qed

section \<open>Properties of the leaf decoders\<close>

text \<open>
  C5. \<open>SignedMagnitudeSingleRegisterSensor.read_value\<close>: when the snapshot holds the
  16-bit word \<open>w\<close> at the sensor's address and \<open>m\<close> is the value of the low 15 bits of
  \<open>w\<close>, the result is \<open>- m * factor + offset\<close> if bit 15 of \<open>w\<close> is set and
  \<open>m * factor + offset\<close> if it is clear; when the address is not in the snapshot the
  result is \<open>None\<close>.
\<close>

theorem signed_magnitude_read_value:
  "(registers (reg_address s) = Some (word16_bytes w) \<longrightarrow>
      read_value (SignedMagnitudeSingleRegisterSensor s) registers =
        Inr (Some (if bit w 15 then - of_int (take_bit 15 (uint w)) * factor s + offset s
                   else of_int (take_bit 15 (uint w)) * factor s + offset s)))
   \<and> (registers (reg_address s) = None \<longrightarrow>
      read_value (SignedMagnitudeSingleRegisterSensor s) registers = Inr None)"
  using sign_byte[of w]
  by (simp add: int_from_bytes_def from_bytes_word16 and_7fff) (simp add: word16_bytes_def)

text \<open>
  With factor \<open>1/10\<close>, the register word \<open>0x8005\<close> (sign bit set, magnitude 5) reads
  as \<open>-1/2\<close> and the word \<open>0x0005\<close> as \<open>1/2\<close>; an empty snapshot reads as \<open>None\<close>.
\<close>

theorem signed_magnitude_read_value_witness:
  "read_value (SignedMagnitudeSingleRegisterSensor (energy_sensor_fields (1 / 10) False))
       (snapshot60 0x8005) = Inr (Some (- 1 / 2))
   \<and> read_value (SignedMagnitudeSingleRegisterSensor (energy_sensor_fields (1 / 10) False))
       (snapshot60 0x0005) = Inr (Some (1 / 2))
   \<and> read_value (SignedMagnitudeSingleRegisterSensor (energy_sensor_fields (1 / 10) False))
       Map.empty = Inr None"
  using signed_magnitude_read_value[of "snapshot60 0x8005"
      "energy_sensor_fields (1 / 10) False" "0x8005"]
    signed_magnitude_read_value[of "snapshot60 0x0005"
      "energy_sensor_fields (1 / 10) False" "0x0005"]
    signed_magnitude_read_value[of Map.empty "energy_sensor_fields (1 / 10) False"]
  by (simp add: snapshot60_def energy_sensor_fields_def)

text \<open>
  C6. \<open>DoubleRegisterSensor.read_value\<close>, for a sensor at address \<open>a\<close>: with
  \<open>low_word_first\<close> and a snapshot holding \<open>lo\<close> at \<open>a\<close> and \<open>hi\<close> at \<open>a + 1\<close>, the
  raw 32-bit word is \<open>hi << 16 | lo\<close>; without \<open>low_word_first\<close> and a snapshot holding
  \<open>hi\<close> at \<open>a\<close> and \<open>lo\<close> at \<open>a + 1\<close>, it is the same word. The value read is that
  word, taken as two's complement when the sensor is signed and as unsigned otherwise,
  times \<open>factor\<close> plus \<open>offset\<close>. When one of the two addresses is not in the snapshot
  the result is \<open>None\<close>.
\<close>

theorem double_register_read_value:
  "(low_word_first s \<and> registers (reg_address s) = Some (word16_bytes lo)
      \<and> registers (reg_address s + 1) = Some (word16_bytes hi)
    \<longrightarrow> read_value (DoubleRegisterSensor s) registers =
          Inr (Some (of_int (if signed_flag s then sint (word32_of_words hi lo)
                             else uint (word32_of_words hi lo)) * factor s + offset s)))
   \<and> (\<not> low_word_first s \<and> registers (reg_address s) = Some (word16_bytes hi)
      \<and> registers (reg_address s + 1) = Some (word16_bytes lo)
    \<longrightarrow> read_value (DoubleRegisterSensor s) registers =
          Inr (Some (of_int (if signed_flag s then sint (word32_of_words hi lo)
                             else uint (word32_of_words hi lo)) * factor s + offset s)))
   \<and> (registers (reg_address s) = None \<or> registers (reg_address s + 1) = None
    \<longrightarrow> read_value (DoubleRegisterSensor s) registers = Inr None)"
  by (auto simp add: int_from_bytes_two_words split: option.splits)

text \<open>
  The words \<open>hi = 1\<close> and \<open>lo = 2\<close> read as \<open>65538 / 10\<close> in both word orders, the
  words \<open>hi = 0xFFFF\<close> and \<open>lo = 0xFFFE\<close> read as \<open>- 2 / 10\<close> when signed, and a
  snapshot without registers 63 and 64 reads as \<open>None\<close>.
\<close>

theorem double_register_read_value_witness:
  "read_value (DoubleRegisterSensor (total_energy_fields False True)) (snapshot63 2 1)
     = Inr (Some (65538 / 10))
   \<and> read_value (DoubleRegisterSensor (total_energy_fields False False)) (snapshot63 1 2)
     = Inr (Some (65538 / 10))
   \<and> read_value (DoubleRegisterSensor (total_energy_fields True True)) (snapshot63 0xFFFE 0xFFFF)
     = Inr (Some (- 2 / 10))
   \<and> read_value (DoubleRegisterSensor (total_energy_fields False True)) (snapshot60 7)
     = Inr None"
  using double_register_read_value[of "total_energy_fields False True" "snapshot63 2 1" 2 1]
    double_register_read_value[of "total_energy_fields False False" "snapshot63 1 2" 2 1]
    double_register_read_value[of "total_energy_fields True True" "snapshot63 0xFFFE 0xFFFF" "0xFFFE" "0xFFFF"]
    double_register_read_value[of "total_energy_fields False True" "snapshot60 7"]
  by (simp add: total_energy_fields_def snapshot63_def snapshot60_def word32_of_words_def)

section \<open>Properties of ComputedSumSensor\<close>

lemma read_values_map:
  "read_values sensors registers = Inr vals
     \<longleftrightarrow> map (\<lambda>s. read_value s registers) sensors = map Inr vals"
proof (induction sensors arbitrary: vals)
  case Nil
  show ?case by auto
next
  case (Cons s ss)
  show ?case
  proof (cases vals)
    case Nil
    then show ?thesis by (auto split: sum.splits)
  next
    case (Cons v vs)
    with Cons.IH[of vs] show ?thesis by (auto split: sum.splits)
  qed
qed

lemma sum_loop_None: "None \<in> set vals \<Longrightarrow> sum_loop acc vals = None"
  by (induction acc vals rule: sum_loop.induct) auto

lemma sum_loop_Some:
  "None \<notin> set vals \<Longrightarrow> sum_loop acc vals = Some (acc + sum_list (map the vals))"
  by (induction acc vals rule: sum_loop.induct) (auto simp: add.assoc)

lemma energy_sensor_read: "read_value energy_sensor (snapshot60 w) = Inr (Some (of_int (uint w)))"
  by (simp add: energy_sensor_def energy_sensor_fields_def snapshot60_def int_from_bytes_def
      from_bytes_word16)

lemma energy_sensor_absent: "read_value energy_sensor Map.empty = Inr None"
  by (simp add: energy_sensor_def)

lemma total_absent:
  "read_value (DoubleRegisterSensor (total_energy_fields False True)) (snapshot60 w) = Inr None"
  by (simp add: total_energy_fields_def snapshot60_def)

text \<open>
  C7. \<open>ComputedSumSensor.read_value\<close>: when the operands' reads return the values
  \<open>vals\<close>, in order, the result is \<open>None\<close> if at least one of them is \<open>None\<close> (never
  a partial sum) and the sum of all of them otherwise; with no operands the result is 0.
\<close>

theorem computed_sum_read_value:
  assumes "map (\<lambda>s. read_value s registers) sensors = map Inr vals"
  shows "read_value (ComputedSumSensor n sensors) registers =
           Inr (if None \<in> set vals then None else Some (sum_list (map the vals)))
         \<and> read_value (ComputedSumSensor n []) registers = Inr (Some 0)"
  using assms by (simp add: read_values_map[symmetric] sum_loop_None sum_loop_Some)

text \<open>
  On a snapshot holding 5 in register 60: the sum of the energy sensor and a sensor whose
  registers are missing is \<open>None\<close>, the sum of the energy sensor with itself is 10, and
  the empty sum is 0.
\<close>

theorem computed_sum_read_value_witness:
  "read_value (ComputedSumSensor computed_fields
      [energy_sensor, DoubleRegisterSensor (total_energy_fields False True)]) (snapshot60 5)
     = Inr None
   \<and> read_value (ComputedSumSensor computed_fields [energy_sensor, energy_sensor]) (snapshot60 5)
     = Inr (Some 10)
   \<and> read_value (ComputedSumSensor computed_fields []) (snapshot60 5) = Inr (Some 0)"
proof -
  have absent: "map (\<lambda>s. read_value s (snapshot60 5))
        [energy_sensor, DoubleRegisterSensor (total_energy_fields False True)]
      = map Inr [Some 5, None]"
    by (simp del: read_value.simps add: energy_sensor_read total_absent)
  have present: "map (\<lambda>s. read_value s (snapshot60 5)) [energy_sensor, energy_sensor]
      = map Inr [Some 5, Some 5]"
    by (simp add: energy_sensor_read)
  show ?thesis
    using computed_sum_read_value[OF absent, of computed_fields] computed_sum_read_value[OF present, of computed_fields]
    by (simp del: read_value.simps)
qed

section \<open>Properties of groups and construction\<close>

lemma NamedSensor_init_groups:
  "NamedSensor_init nm suffix un fmt grps = Inr n \<Longrightarrow> groups n = grps \<and> grps \<noteq> []"
  by (auto simp add: NamedSensor_init_def split: if_splits)

lemma NamedSensor_init_empty: "NamedSensor_init nm suffix un fmt [] = Inl AssertionError"
  by (simp add: NamedSensor_init_def)

lemma RegisterSensor_init_groups:
  "RegisterSensor_init nm addr fac off sg suffix un fmt grps = Inr s \<Longrightarrow> groups s \<noteq> []"
  by (auto simp add: RegisterSensor_init_def dest: NamedSensor_init_groups split: sum.splits)

lemma DoubleRegisterSensor_fields_init_groups:
  "DoubleRegisterSensor_fields_init nm addr fac off sg suffix un fmt grps lwf = Inr s
     \<Longrightarrow> groups s \<noteq> []"
  by (auto simp add: DoubleRegisterSensor_fields_init_def dest: NamedSensor_init_groups
      split: sum.splits)

lemma init_empty_groups:
  "SingleRegisterSensor_init nm addr fac off sg suffix un fmt [] = Inl AssertionError"
  "SignedMagnitudeSingleRegisterSensor_init nm addr fac off sg suffix un fmt [] = Inl AssertionError"
  "DoubleRegisterSensor_init nm addr fac off sg suffix un fmt [] lwf = Inl AssertionError"
  "SignedMagnitudeDoubleRegisterSensor_init nm addr fac off sg suffix un fmt [] lwf
     = Inl AssertionError"
  "ComputedPowerSensor_init nm vs cs suffix un fmt [] = Inl AssertionError"
  "ComputedSumSensor_init nm ss suffix un fmt [] = Inl AssertionError"
  "AggregatedValueSensor_init nm suffix un fmt [] = Inl AssertionError"
  by (simp_all add: SingleRegisterSensor_init_def SignedMagnitudeSingleRegisterSensor_init_def
      DoubleRegisterSensor_init_def SignedMagnitudeDoubleRegisterSensor_init_def
      ComputedPowerSensor_init_def ComputedSumSensor_init_def AggregatedValueSensor_init_def
      RegisterSensor_init_def DoubleRegisterSensor_fields_init_def NamedSensor_init_empty)

lemma init_groups_nonempty:
  "SingleRegisterSensor_init nm addr fac off sg suffix un fmt grps = Inr s \<Longrightarrow> groups_of s \<noteq> []"
  "SignedMagnitudeSingleRegisterSensor_init nm addr fac off sg suffix un fmt grps = Inr s
     \<Longrightarrow> groups_of s \<noteq> []"
  "DoubleRegisterSensor_init nm addr fac off sg suffix un fmt grps lwf = Inr s
     \<Longrightarrow> groups_of s \<noteq> []"
  "SignedMagnitudeDoubleRegisterSensor_init nm addr fac off sg suffix un fmt grps lwf = Inr s
     \<Longrightarrow> groups_of s \<noteq> []"
  "ComputedPowerSensor_init nm vs cs suffix un fmt grps = Inr s \<Longrightarrow> groups_of s \<noteq> []"
  "ComputedSumSensor_init nm ss suffix un fmt grps = Inr s \<Longrightarrow> groups_of s \<noteq> []"
  "AggregatedValueSensor_init nm suffix un fmt grps = Inr s \<Longrightarrow> groups_of s \<noteq> []"
  by (auto simp add: SingleRegisterSensor_init_def SignedMagnitudeSingleRegisterSensor_init_def
      DoubleRegisterSensor_init_def SignedMagnitudeDoubleRegisterSensor_init_def
      ComputedPowerSensor_init_def ComputedSumSensor_init_def AggregatedValueSensor_init_def
      map_sum_def
      dest: RegisterSensor_init_groups DoubleRegisterSensor_fields_init_groups
        NamedSensor_init_groups
      split: sum.splits)

text \<open>
  A range built with an empty set of groups matches no set of active groups:
  \<open>SensorRegisterRange.in_any_group\<close> has no clause for an empty set.
\<close>

theorem range_in_any_group_counterexample:
  "group_set (SensorRegisterRange_init (Inr {}) 10 20) = {}
   \<and> \<not> range_in_any_group (SensorRegisterRange_init (Inr {}) 10 20) {''g1''}"
  by (simp add: range_in_any_group_def SensorRegisterRange_init_def)

text \<open>
  C9, as the code has it. \<open>Sensor.in_any_group\<close> is true, for every set of active
  groups, for a sensor whose \<open>groups\<close> are empty, and so is the method of a
  \<open>DailyResetSensor\<close> around such a sensor; \<open>SensorRegisterRange.in_any_group\<close> is false
  for a range whose set of groups is empty. The constructor of every subclass of
  \<open>NamedSensor\<close> fails with an \<open>AssertionError\<close> when \<open>groups\<close> is empty, and a sensor
  that a constructor returns has non-empty \<open>groups\<close>.
\<close>

theorem in_any_group_empty_groups:
  "(groups_of s = [] \<longrightarrow> in_any_group s active_groups)
   \<and> (groups_of (delegate d) = [] \<longrightarrow> DailyResetSensor_in_any_group d active_groups)
   \<and> (group_set r = {} \<longrightarrow> \<not> range_in_any_group r active_groups)
   \<and> SingleRegisterSensor_init nm addr fac off sg suffix un fmt [] = Inl AssertionError
   \<and> SignedMagnitudeSingleRegisterSensor_init nm addr fac off sg suffix un fmt []
       = Inl AssertionError
   \<and> DoubleRegisterSensor_init nm addr fac off sg suffix un fmt [] lwf = Inl AssertionError
   \<and> SignedMagnitudeDoubleRegisterSensor_init nm addr fac off sg suffix un fmt [] lwf
       = Inl AssertionError
   \<and> ComputedPowerSensor_init nm vs cs suffix un fmt [] = Inl AssertionError
   \<and> ComputedSumSensor_init nm ss suffix un fmt [] = Inl AssertionError
   \<and> AggregatedValueSensor_init nm suffix un fmt [] = Inl AssertionError
   \<and> (\<forall>s'. SingleRegisterSensor_init nm addr fac off sg suffix un fmt grps = Inr s'
          \<or> SignedMagnitudeSingleRegisterSensor_init nm addr fac off sg suffix un fmt grps = Inr s'
          \<or> DoubleRegisterSensor_init nm addr fac off sg suffix un fmt grps lwf = Inr s'
          \<or> SignedMagnitudeDoubleRegisterSensor_init nm addr fac off sg suffix un fmt grps lwf
              = Inr s'
          \<or> ComputedPowerSensor_init nm vs cs suffix un fmt grps = Inr s'
          \<or> ComputedSumSensor_init nm ss suffix un fmt grps = Inr s'
          \<or> AggregatedValueSensor_init nm suffix un fmt grps = Inr s'
        \<longrightarrow> groups_of s' \<noteq> [])"
  by (auto simp add: in_any_group_def DailyResetSensor_in_any_group_def range_in_any_group_def
      init_empty_groups dest: init_groups_nonempty)

text \<open>
  Sensors and a range with empty groups, taken as values, and the construction of the
  energy sensor with no group and with the group \<open>micro\<close>.
\<close>

theorem in_any_group_empty_groups_witness:
  "in_any_group (AggregatedValueSensor (computed_fields\<lparr>groups := []\<rparr>)) {''g1''}
   \<and> DailyResetSensor_in_any_group
        \<lparr>delegate = SingleRegisterSensor ((energy_sensor_fields 1 False)\<lparr>groups := []\<rparr>),
         last_value = Some 0, last_value_ts = at_noon 2024 3 14\<rparr> {''g1''}
   \<and> \<not> range_in_any_group (SensorRegisterRange_init (Inr {}) 10 20) {''g1''}
   \<and> SingleRegisterSensor_init ''Production today'' 60 1 0 False ''day_energy'' ''kWh''
        ''{:0.1f}'' [] = Inl AssertionError
   \<and> SingleRegisterSensor_init ''Production today'' 60 1 0 False ''day_energy'' ''kWh''
        ''{:0.1f}'' [''micro''] = Inr energy_sensor
   \<and> groups_of energy_sensor \<noteq> []"
proof -
  have built: "SingleRegisterSensor_init ''Production today'' 60 1 0 False ''day_energy'' ''kWh''
        ''{:0.1f}'' [''micro''] = Inr energy_sensor"
    by (simp add: SingleRegisterSensor_init_def RegisterSensor_init_def NamedSensor_init_def
        energy_sensor_def energy_sensor_fields_def)
  have g1: "groups_of (AggregatedValueSensor (computed_fields\<lparr>groups := []\<rparr>)) = []"
    by simp
  have g2: "groups_of (delegate
        \<lparr>delegate = SingleRegisterSensor ((energy_sensor_fields 1 False)\<lparr>groups := []\<rparr>),
         last_value = Some 0, last_value_ts = at_noon 2024 3 14\<rparr>) = []"
    by simp
  have g3: "group_set (SensorRegisterRange_init (Inr {}) 10 20) = {}"
    by (simp add: SensorRegisterRange_init_def)
  note t = in_any_group_empty_groups[of
      "AggregatedValueSensor (computed_fields\<lparr>groups := []\<rparr>)" "{''g1''}"
      "\<lparr>delegate = SingleRegisterSensor ((energy_sensor_fields 1 False)\<lparr>groups := []\<rparr>),
         last_value = Some 0, last_value_ts = at_noon 2024 3 14\<rparr>"
      "SensorRegisterRange_init (Inr {}) 10 20"
      "''Production today''" 60 1 0 False "''day_energy''" "''kWh''" "''{:0.1f}''"
      _ _ _ _ "[''micro'']"]
  from t g1 have a: "in_any_group (AggregatedValueSensor (computed_fields\<lparr>groups := []\<rparr>)) {''g1''}"
    by blast
  from t g2 have b: "DailyResetSensor_in_any_group
        \<lparr>delegate = SingleRegisterSensor ((energy_sensor_fields 1 False)\<lparr>groups := []\<rparr>),
         last_value = Some 0, last_value_ts = at_noon 2024 3 14\<rparr> {''g1''}"
    by blast
  from t g3 have c: "\<not> range_in_any_group (SensorRegisterRange_init (Inr {}) 10 20) {''g1''}"
    by blast
  from t have d: "SingleRegisterSensor_init ''Production today'' 60 1 0 False ''day_energy''
      ''kWh'' ''{:0.1f}'' [] = Inl AssertionError"
    by blast
  from t built have e: "groups_of energy_sensor \<noteq> []"
    by blast
  from a b c d built e show ?thesis by blast
qed

section \<open>SingleRegisterSensor: writing back what was read\<close>

text \<open>
  With exact arithmetic, writing the value that was read from a two-byte register gives
  the bytes of that register back, for every factor other than 0.
\<close>

lemma write_read_exact:
  assumes "factor s \<noteq> 0" and "registers (reg_address s) = Some (word16_bytes w)"
  shows "write_read (SingleRegisterSensor s) registers = Inr [reg_address s \<mapsto> word16_bytes w]"
  using assms
  by (simp add: write_read_def SingleRegisterSensor_write_value_def py_int_of_int
      int_to_bytes2_from_bytes)

text \<open>
  C4. \<open>write_value\<close> does not round: \<open>int(...)\<close> truncates towards zero. The value
  \<open>1.9\<close> with factor 1 is written as 1, where rounding gives 2. With the doubles of
  Python, register 43 read with factor \<open>0.1\<close> gives the double \<open>4.3\<close>, whose quotient
  by the double \<open>0.1\<close> is below 43: it is written back as 42 (bytes \<open>00 2A\<close>), where
  rounding gives 43 (bytes \<open>00 2B\<close>).
\<close>

theorem write_value_truncates:
  "write_value (SingleRegisterSensor (energy_sensor_fields 1 False)) (19 / 10) = Inr [60 \<mapsto> [0, 1]]
   \<and> round ((19 / 10 - 0) / 1 :: rat) = 2
   \<and> write_value (SingleRegisterSensor (energy_sensor_fields double_0_1 False)) double_4_3
       = Inr [60 \<mapsto> [0, 42]]
   \<and> round ((double_4_3 - 0) / double_0_1) = 43"
  by (simp add: SingleRegisterSensor_write_value_def energy_sensor_fields_def int_to_bytes2_def
      double_0_1_def double_4_3_def py_int_numeral round_def floor_rat_numeral)

section \<open>Properties of the register ranges\<close>

lemma upto_0_1: "[0 .. 1] = [0, 1::int]"
  by (simp add: upto.simps)

text \<open>
  C3. For the catalog \<open>[(g1,10,20), (g1,10,20), (g2,30,45)]\<close>, the active groups
  \<open>g1\<close> and \<open>g2\<close> and \<open>max_range_length = 10\<close>: filtering keeps the three ranges,
  removing duplicates keeps the first \<open>(g1,10,20)\<close> and \<open>(g2,30,45)\<close>, and splitting
  yields \<open>[(g1,10,19), (g1,20,20), (g2,30,39), (g2,40,45)]\<close> in that order. The addresses
  of the sub-ranges of each parent, one after the other, are the addresses of the parent:
  no gap and no overlap.
\<close>

theorem register_ranges_example:
  "filter_reg_ranges example_catalog [''g1'', ''g2''] = example_catalog
   \<and> remove_duplicated_reg_ranges example_catalog =
       [SensorRegisterRange_init (Inl ''g1'') 10 20, SensorRegisterRange_init (Inl ''g2'') 30 45]
   \<and> SensorRegisterRanges_init example_catalog [''g1'', ''g2''] 10 =
       Inr [\<lparr>group_set = {''g1''}, first_reg_address = 10, last_reg_address = 19\<rparr>,
            \<lparr>group_set = {''g1''}, first_reg_address = 20, last_reg_address = 20\<rparr>,
            \<lparr>group_set = {''g2''}, first_reg_address = 30, last_reg_address = 39\<rparr>,
            \<lparr>group_set = {''g2''}, first_reg_address = 40, last_reg_address = 45\<rparr>]
   \<and> concat (map range_addresses
         [\<lparr>group_set = {''g1''}, first_reg_address = 10, last_reg_address = 19\<rparr>,
          \<lparr>group_set = {''g1''}, first_reg_address = 20, last_reg_address = 20\<rparr>])
       = range_addresses (SensorRegisterRange_init (Inl ''g1'') 10 20)
   \<and> concat (map range_addresses
         [\<lparr>group_set = {''g2''}, first_reg_address = 30, last_reg_address = 39\<rparr>,
          \<lparr>group_set = {''g2''}, first_reg_address = 40, last_reg_address = 45\<rparr>])
       = range_addresses (SensorRegisterRange_init (Inl ''g2'') 30 45)"
proof -
  have filtered: "filter_reg_ranges example_catalog [''g1'', ''g2''] = example_catalog"
    by (simp add: filter_reg_ranges_def example_catalog_def SensorRegisterRange_init_def
        range_in_any_group_def)
  have unique: "remove_duplicated_reg_ranges example_catalog =
      [SensorRegisterRange_init (Inl ''g1'') 10 20, SensorRegisterRange_init (Inl ''g2'') 30 45]"
    by (simp add: remove_duplicated_reg_ranges_def example_catalog_def
        SensorRegisterRange_init_def is_same_range_def)
  have split: "split_long_reg_ranges
      [SensorRegisterRange_init (Inl ''g1'') 10 20, SensorRegisterRange_init (Inl ''g2'') 30 45] 10 =
       Inr [\<lparr>group_set = {''g1''}, first_reg_address = 10, last_reg_address = 19\<rparr>,
            \<lparr>group_set = {''g1''}, first_reg_address = 20, last_reg_address = 20\<rparr>,
            \<lparr>group_set = {''g2''}, first_reg_address = 30, last_reg_address = 39\<rparr>,
            \<lparr>group_set = {''g2''}, first_reg_address = 40, last_reg_address = 45\<rparr>]"
    by (simp add: split_long_reg_ranges_def SensorRegisterRange_init_def range_length_def
        split_range_def ceil_div_def sub_range_def upto_0_1)
  have cover1: "[10 .. 19] @ [20 .. 20] = [10 .. 20::int]"
    by (simp add: upto.simps)
  have cover2: "[30 .. 39] @ [40 .. 45] = [30 .. 45::int]"
    by (simp add: upto.simps)
  show ?thesis
    unfolding SensorRegisterRanges_init_def Let_def filtered unique split
    using cover1 cover2 by (simp add: range_addresses_def SensorRegisterRange_init_def)
qed

section \<open>Properties of DailyResetSensor\<close>

lemma daily_simps:
  "delegate (daily l ts) = energy_sensor" "last_value (daily l ts) = l"
  "last_value_ts (daily l ts) = ts"
  by (simp_all add: daily_def)

lemma daily_update:
  "(daily l ts)\<lparr>last_value := l', last_value_ts := ts'\<rparr> = daily l' ts'"
  by (simp add: daily_def)

lemma day_at_noon: "day (at_noon y m d) = d" "calendar_date (at_noon y m d) = (y, m, d)"
  by (simp_all add: at_noon_def calendar_date_def)

lemma daily_read_present:
  "DailyResetSensor_read_value (daily l ts) now (snapshot60 w) =
     (if day now \<noteq> day ts
      then (case l of
              None \<Rightarrow> Inl TypeError
            | Some x \<Rightarrow>
                if x \<le> of_int (uint w) then Inr (Some 0, daily l ts)
                else Inr (Some (of_int (uint w)), daily (Some (of_int (uint w))) now))
      else Inr (Some (of_int (uint w)), daily (Some (of_int (uint w))) now))"
  by (simp add: DailyResetSensor_read_value_def daily_simps daily_update energy_sensor_read
      py_ge_def Let_def split: option.splits)

lemma daily_read_absent:
  "DailyResetSensor_read_value (daily l ts) now Map.empty = Inr (None, daily None now)"
  by (simp add: DailyResetSensor_read_value_def daily_simps daily_update energy_sensor_absent
      Let_def)

text \<open>
  Two reads at which the value returned is not the one C1 states. A month after the
  stored timestamp, on the same day of the month, the calendar day differs and the
  value 5 is not below the stored 0, yet the read returns 5: the code compares the
  attribute \<open>day\<close>. With \<open>None\<close> stored as last value, a read of 5 on the next day
  returns nothing: the comparison raises \<open>TypeError\<close>.
\<close>

theorem daily_reset_value_counterexample:
  "calendar_date (at_noon 2024 2 15) \<noteq> calendar_date (at_noon 2024 1 15)
   \<and> read_value energy_sensor (snapshot60 5) = Inr (Some 5)
   \<and> DailyResetSensor_read_value (daily (Some 0) (at_noon 2024 1 15)) (at_noon 2024 2 15)
         (snapshot60 5)
       = Inr (Some 5, daily (Some 5) (at_noon 2024 2 15))
   \<and> DailyResetSensor_read_value (daily None (at_noon 2024 1 15)) (at_noon 2024 1 16)
         (snapshot60 5)
       = Inl TypeError"
  by (simp add: daily_read_present day_at_noon energy_sensor_read)

text \<open>
  C1, as the code has it. For every read of a \<open>DailyResetSensor\<close> whose stored last
  value is a number: if the delegate's value is present, the day of the month of \<open>now\<close>
  differs from the day of the month of the stored timestamp, and the value is at least
  the stored last value, the read returns 0; in every other case, an absent delegate
  value included, it returns the delegate's value unchanged.
\<close>

theorem daily_reset_value:
  assumes "read_value (delegate self) registers = Inr val"
    and "last_value self = Some l"
  shows "map_sum id fst (DailyResetSensor_read_value self now registers) =
           Inr (if \<exists>v. val = Some v \<and> day now \<noteq> day (last_value_ts self) \<and> l \<le> v
                then Some 0 else val)"
  using assms by (cases val) (simp_all add: DailyResetSensor_read_value_def py_ge_def Let_def)

text \<open>
  With 3 stored on 14 March 2024, a read of 5 returns 0 on 15 March and 5 on 14 March;
  with 100 stored, a read of 5 on 15 March returns 5; an empty snapshot returns \<open>None\<close>.
\<close>

theorem daily_reset_value_witness:
  "map_sum id fst (DailyResetSensor_read_value (daily (Some 3) (at_noon 2024 3 14))
       (at_noon 2024 3 15) (snapshot60 5)) = Inr (Some 0)
   \<and> map_sum id fst (DailyResetSensor_read_value (daily (Some 3) (at_noon 2024 3 14))
       (at_noon 2024 3 14) (snapshot60 5)) = Inr (Some 5)
   \<and> map_sum id fst (DailyResetSensor_read_value (daily (Some 100) (at_noon 2024 3 14))
       (at_noon 2024 3 15) (snapshot60 5)) = Inr (Some 5)
   \<and> map_sum id fst (DailyResetSensor_read_value (daily (Some 3) (at_noon 2024 3 14))
       (at_noon 2024 3 15) Map.empty) = Inr None"
proof -
  have present: "read_value (delegate (daily l ts)) (snapshot60 5) = Inr (Some 5)" for l ts
    by (simp add: daily_simps energy_sensor_read)
  have absent: "read_value (delegate (daily l ts)) Map.empty = Inr None" for l ts
    by (simp add: daily_simps energy_sensor_absent)
  have stored: "last_value (daily (Some l) ts) = Some l" for l ts
    by (simp add: daily_simps)
  show ?thesis
    using daily_reset_value[OF present stored, of 3 "at_noon 2024 3 14" "at_noon 2024 3 15"]
      daily_reset_value[OF present stored, of 3 "at_noon 2024 3 14" "at_noon 2024 3 14"]
      daily_reset_value[OF present stored, of 100 "at_noon 2024 3 14" "at_noon 2024 3 15"]
      daily_reset_value[OF absent stored, of 3 "at_noon 2024 3 14" "at_noon 2024 3 15"]
    by (simp add: daily_simps day_at_noon)
qed

text \<open>
  Two reads after which the state is not the one C2 states. The read that returns the
  synthetic 0 stores nothing, although the delegate's value is present; the read of an
  absent value stores \<open>None\<close> and \<open>now\<close>.
\<close>

theorem daily_reset_state_counterexample:
  "read_value energy_sensor (snapshot60 5) = Inr (Some 5)
   \<and> DailyResetSensor_read_value (daily (Some 3) (at_noon 2024 3 14)) (at_noon 2024 3 15)
         (snapshot60 5)
       = Inr (Some 0, daily (Some 3) (at_noon 2024 3 14))
   \<and> daily (Some 3) (at_noon 2024 3 14) \<noteq> daily (Some 5) (at_noon 2024 3 15)
   \<and> read_value energy_sensor Map.empty = Inr None
   \<and> DailyResetSensor_read_value (daily (Some 3) (at_noon 2024 3 14)) (at_noon 2024 3 15)
         Map.empty
       = Inr (None, daily None (at_noon 2024 3 15))
   \<and> daily None (at_noon 2024 3 15) \<noteq> daily (Some 3) (at_noon 2024 3 14)"
  by (simp add: daily_read_present daily_read_absent day_at_noon energy_sensor_read
      energy_sensor_absent)
     (simp add: daily_def)

text \<open>
  C2, as the code has it. For every read of a \<open>DailyResetSensor\<close> whose delegate value
  \<open>v\<close> is present and whose stored last value \<open>l\<close> is a number: when the read returns
  the synthetic 0 (the day of the month differs and \<open>l \<le> v\<close>), the state is left
  unchanged; when it passes the value through, the last value becomes \<open>v\<close> and the
  timestamp becomes \<open>now\<close>.
\<close>

theorem daily_reset_state:
  assumes "read_value (delegate self) registers = Inr (Some v)"
    and "last_value self = Some l"
  shows "map_sum id snd (DailyResetSensor_read_value self now registers) =
           Inr (if day now \<noteq> day (last_value_ts self) \<and> l \<le> v then self
                else self\<lparr>last_value := Some v, last_value_ts := now\<rparr>)"
  using assms by (simp add: DailyResetSensor_read_value_def py_ge_def Let_def)

text \<open>
  With 3 stored on 14 March 2024, a read of 5 on 15 March leaves the state as it was and
  a read of 5 on 14 March stores 5; with 100 stored, a read of 5 on 15 March stores 5 and
  15 March.
\<close>

theorem daily_reset_state_witness:
  "map_sum id snd (DailyResetSensor_read_value (daily (Some 3) (at_noon 2024 3 14))
       (at_noon 2024 3 15) (snapshot60 5)) = Inr (daily (Some 3) (at_noon 2024 3 14))
   \<and> map_sum id snd (DailyResetSensor_read_value (daily (Some 100) (at_noon 2024 3 14))
       (at_noon 2024 3 15) (snapshot60 5)) = Inr (daily (Some 5) (at_noon 2024 3 15))
   \<and> map_sum id snd (DailyResetSensor_read_value (daily (Some 3) (at_noon 2024 3 14))
       (at_noon 2024 3 14) (snapshot60 5)) = Inr (daily (Some 5) (at_noon 2024 3 14))"
proof -
  have present: "read_value (delegate (daily l ts)) (snapshot60 5) = Inr (Some 5)" for l ts
    by (simp add: daily_simps energy_sensor_read)
  have stored: "last_value (daily (Some l) ts) = Some l" for l ts
    by (simp add: daily_simps)
  show ?thesis
    using daily_reset_state[OF present stored, of 3 "at_noon 2024 3 14" "at_noon 2024 3 15"]
      daily_reset_state[OF present stored, of 100 "at_noon 2024 3 14" "at_noon 2024 3 15"]
      daily_reset_state[OF present stored, of 3 "at_noon 2024 3 14" "at_noon 2024 3 14"]
    by (simp add: daily_simps day_at_noon daily_update)
qed

text \<open>
  The two reads of C8 do not return what it states: with 100 stored the day before, a
  read of 5 does not return 0; with 3 stored the day before, a read of 5 does not
  return 5.
\<close>

theorem daily_reset_example_counterexample:
  "map_sum id fst (DailyResetSensor_read_value (daily (Some 100) (at_noon 2024 3 14))
       (at_noon 2024 3 15) (snapshot60 5)) \<noteq> Inr (Some 0)
   \<and> map_sum id fst (DailyResetSensor_read_value (daily (Some 3) (at_noon 2024 3 14))
       (at_noon 2024 3 15) (snapshot60 5)) \<noteq> Inr (Some 5)"
  by (simp add: daily_read_present day_at_noon)

text \<open>
  C8, as the code has it. With last value 100 and a timestamp on the previous day, a
  read whose delegate value is 5 returns 5 and leaves the state (5, today): the counter
  has already been reset by the device. With last value 3 and a timestamp on the
  previous day, a read whose delegate value is 5 returns 0 and leaves the state as it
  was.
\<close>

theorem daily_reset_example:
  "read_value energy_sensor (snapshot60 5) = Inr (Some 5)
   \<and> DailyResetSensor_read_value (daily (Some 100) (at_noon 2024 3 14)) (at_noon 2024 3 15)
         (snapshot60 5)
       = Inr (Some 5, daily (Some 5) (at_noon 2024 3 15))
   \<and> DailyResetSensor_read_value (daily (Some 3) (at_noon 2024 3 14)) (at_noon 2024 3 15)
         (snapshot60 5)
       = Inr (Some 0, daily (Some 3) (at_noon 2024 3 14))"
  by (simp add: daily_read_present day_at_noon energy_sensor_read)

text \<open>
  After a read of an absent value on 15 January, a read of 5 on 15 February, a different
  calendar day, raises no error: the two timestamps have the same day of the month.
\<close>

theorem daily_reset_type_error_counterexample:
  "DailyResetSensor_read_value (daily (Some 0) (at_noon 2024 1 14)) (at_noon 2024 1 15) Map.empty
       = Inr (None, daily None (at_noon 2024 1 15))
   \<and> calendar_date (at_noon 2024 2 15) \<noteq> calendar_date (at_noon 2024 1 15)
   \<and> read_value energy_sensor (snapshot60 5) = Inr (Some 5)
   \<and> DailyResetSensor_read_value (daily None (at_noon 2024 1 15)) (at_noon 2024 2 15)
         (snapshot60 5)
       = Inr (Some 5, daily (Some 5) (at_noon 2024 2 15))"
  by (simp add: daily_read_present daily_read_absent day_at_noon energy_sensor_read)

text \<open>
  C10, as the code has it. A read that observes an absent delegate value stores \<open>None\<close>
  as last value and \<open>now\<close> as timestamp. The next read with a present delegate value,
  at a time whose day of the month differs from that of the stored timestamp, raises
  \<open>TypeError\<close>. A read returns exactly when the delegate returns and it is not the
  case that the value is present, the day of the month differs and the stored last
  value is \<open>None\<close>.
\<close>

theorem daily_reset_type_error:
  assumes "read_value (delegate self) registers = Inr None"
  shows "DailyResetSensor_read_value self now registers
           = Inr (None, self\<lparr>last_value := None, last_value_ts := now\<rparr>)
         \<and> (\<forall>registers' now' v.
               read_value (delegate self) registers' = Inr (Some v) \<and> day now' \<noteq> day now
               \<longrightarrow> DailyResetSensor_read_value
                     (self\<lparr>last_value := None, last_value_ts := now\<rparr>) now' registers'
                   = Inl TypeError)
         \<and> (\<forall>s registers' now'.
               (\<exists>r. DailyResetSensor_read_value s now' registers' = Inr r)
               \<longleftrightarrow> (\<exists>val. read_value (delegate s) registers' = Inr val
                      \<and> \<not> (val \<noteq> None \<and> day now' \<noteq> day (last_value_ts s)
                            \<and> last_value s = None)))"
proof (intro conjI allI impI)
  show "DailyResetSensor_read_value self now registers
          = Inr (None, self\<lparr>last_value := None, last_value_ts := now\<rparr>)"
    using assms by (simp add: DailyResetSensor_read_value_def Let_def)
next
  fix registers' :: registers and now' :: datetime and v :: rat
  assume "read_value (delegate self) registers' = Inr (Some v) \<and> day now' \<noteq> day now"
  then show "DailyResetSensor_read_value
               (self\<lparr>last_value := None, last_value_ts := now\<rparr>) now' registers'
             = Inl TypeError"
    by (simp add: DailyResetSensor_read_value_def py_ge_def Let_def)
next
  fix s :: DailyResetSensor and registers' :: registers and now' :: datetime
  show "(\<exists>r. DailyResetSensor_read_value s now' registers' = Inr r)
        \<longleftrightarrow> (\<exists>val. read_value (delegate s) registers' = Inr val
               \<and> \<not> (val \<noteq> None \<and> day now' \<noteq> day (last_value_ts s) \<and> last_value s = None))"
    by (auto simp add: DailyResetSensor_read_value_def py_ge_def Let_def
        split: sum.splits option.splits)
qed

text \<open>
  An absent read on 15 January 2024 followed by a read of 5 on 16 January.
\<close>

theorem daily_reset_type_error_witness:
  "DailyResetSensor_read_value (daily (Some 0) (at_noon 2024 1 14)) (at_noon 2024 1 15) Map.empty
       = Inr (None, daily None (at_noon 2024 1 15))
   \<and> DailyResetSensor_read_value (daily None (at_noon 2024 1 15)) (at_noon 2024 1 16)
         (snapshot60 5)
       = Inl TypeError
   \<and> (\<nexists>r. DailyResetSensor_read_value (daily None (at_noon 2024 1 15)) (at_noon 2024 1 16)
         (snapshot60 5) = Inr r)"
proof -
  have absent: "read_value (delegate (daily (Some 0) (at_noon 2024 1 14))) Map.empty = Inr None"
    by (simp add: daily_simps energy_sensor_absent)
  note t = daily_reset_type_error[OF absent, of "at_noon 2024 1 15"]
  from t have first: "DailyResetSensor_read_value (daily (Some 0) (at_noon 2024 1 14))
      (at_noon 2024 1 15) Map.empty = Inr (None, daily None (at_noon 2024 1 15))"
    by (simp add: daily_update)
  from t have "read_value (delegate (daily (Some 0) (at_noon 2024 1 14))) (snapshot60 5)
        = Inr (Some 5) \<and> day (at_noon 2024 1 16) \<noteq> day (at_noon 2024 1 15)
      \<longrightarrow> DailyResetSensor_read_value
            ((daily (Some 0) (at_noon 2024 1 14))
               \<lparr>last_value := None, last_value_ts := at_noon 2024 1 15\<rparr>)
            (at_noon 2024 1 16) (snapshot60 5) = Inl TypeError"
    by blast
  then have second: "DailyResetSensor_read_value (daily None (at_noon 2024 1 15))
      (at_noon 2024 1 16) (snapshot60 5) = Inl TypeError"
    by (simp add: daily_simps daily_update energy_sensor_read day_at_noon)
  from first second show ?thesis by simp
qed

end
